theory Spec2Isabelle
  imports Complex_Main
begin

section \<open>The display settings form (src/components/admin/DisplaySettings.tsx)\<close>

text \<open>
  The component is a form with three fields, a loader that runs on mount, an image
  uploader and a saver. Each handler is an \<open>async\<close> function that talks to the
  backend client, the toast library and the console. The model threads a state record
  through every handler: the form values, the preview state, the submission flag, and
  the list of requests and notifications issued so far, oldest first. What the outside
  world answers (the reply to a request, the identifier a toast call returns, the fresh
  uuid) is an argument of the handler. The libraries the component calls (the
  validation schema combinators, the form library's \<open>handleSubmit\<close> and
  \<open>setValue\<close>, \<open>Number\<close>, \<open>split\<close>, \<open>pop\<close>) are modelled by what they do on the
  values this component gives them.
\<close>

subsection \<open>JavaScript values\<close>

text \<open>
  A finite number is kept by its exact value: every finite double is a rational. NaN and
  the two infinities are separate constructors, since \<open>Number(..)\<close> can produce them.
\<close>

datatype jsnum = NaN | PosInf | NegInf | Fin rat

datatype jsval = JUndefined | JNull | JBool bool | JNum jsnum | JStr string

text \<open>Truthiness, as \<open>!x\<close>, \<open>x || y\<close>, \<open>x && y\<close> and \<open>if (x)\<close> read it.\<close>

fun truthy :: "jsval \<Rightarrow> bool" where
  "truthy JUndefined = False"
| "truthy JNull = False"
| "truthy (JBool b) = b"
| "truthy (JNum NaN) = False"
| "truthy (JNum (Fin q)) = (q \<noteq> 0)"
| "truthy (JNum n) = True"
| "truthy (JStr s) = (s \<noteq> [])"

text \<open>\<open>a || b\<close>\<close>

definition js_or :: "jsval \<Rightarrow> jsval \<Rightarrow> jsval" where
  "js_or a b = (if truthy a then a else b)"

text \<open>\<open>a < b\<close> on numbers: every comparison with NaN is false.\<close>

fun js_less :: "jsnum \<Rightarrow> jsnum \<Rightarrow> bool" where
  "js_less NaN b = False"
| "js_less a NaN = False"
| "js_less (Fin a) (Fin b) = (a < b)"
| "js_less (Fin a) PosInf = True"
| "js_less (Fin a) NegInf = False"
| "js_less PosInf b = False"
| "js_less NegInf NegInf = False"
| "js_less NegInf b = True"

text \<open>\<open>Number.isInteger\<close>\<close>

fun isInteger :: "jsnum \<Rightarrow> bool" where
  "isInteger (Fin q) = (q = of_int \<lfloor>q\<rfloor>)"
| "isInteger n = False"

text \<open>
  \<open>Number(v)\<close>, the coercion behind \<open>z.coerce.number()\<close>. The conversion of a string
  (the StringToNumber of the language, which rounds to a double) is the argument
  \<open>stn\<close>; the other cases are fixed by the language.
\<close>

fun Number :: "(string \<Rightarrow> jsnum) \<Rightarrow> jsval \<Rightarrow> jsnum" where
  "Number stn JUndefined = NaN"
| "Number stn JNull = Fin 0"
| "Number stn (JBool b) = Fin (if b then 1 else 0)"
| "Number stn (JNum n) = n"
| "Number stn (JStr s) = stn s"

text \<open>
  \<open>s.split(c)\<close> for a one-character separator: the pieces between the separators,
  never an empty array.
\<close>

fun split :: "char \<Rightarrow> string \<Rightarrow> string list" where
  "split c [] = [[]]"
| "split c (x # xs) =
     (if x = c then [] # split c xs
      else (case split c xs of [] \<Rightarrow> [[x]] | p # ps \<Rightarrow> (x # p) # ps))"

text \<open>\<open>a.pop()\<close>: the last element, \<open>undefined\<close> on an empty array.\<close>

definition pop :: "string list \<Rightarrow> string option" where
  "pop a = (if a = [] then None else Some (last a))"

text \<open>A value of type \<open>string | undefined\<close> inside a template literal.\<close>

definition template :: "string option \<Rightarrow> string" where
  "template v = (case v of None \<Rightarrow> ''undefined'' | Some s \<Rightarrow> s)"

subsection \<open>The form, the backend rows and the effects\<close>

text \<open>
  The three fields of the form. At run time a field holds whatever was last written to
  it: the default, a column of the loaded row, the public URL of an upload, or the text
  of an input element. Only the colour and the minutes are bound to an input.
\<close>

record form_values =
  backgroundImageUrl :: jsval
  backgroundColor :: jsval
  screensaverIdleMinutes :: jsval

text \<open>The three columns the loader selects; the saver's payload adds the key.\<close>

record settings_row =
  background_image_url :: jsval
  background_color :: jsval
  screensaver_idle_minutes :: jsval

record upsert_payload = settings_row +
  row_id :: int

text \<open>An error object of the backend client or a thrown \<open>Error\<close>.\<close>

record js_error =
  code :: "string option"
  message :: string

text \<open>The \<open>{ data, error }\<close> pair every backend call resolves to.\<close>

record 'a response =
  data :: "'a option"
  error :: "js_error option"

text \<open>The \<open>data\<close> of \<open>getPublicUrl\<close>.\<close>

record public_url_data =
  publicUrl :: jsval

record upload_file =
  name :: string
  content :: string

type_synonym toast_id = nat

datatype toast_kind = TLoading | TSuccess | TError

text \<open>
  Everything a handler sends out:
  \<^item> \<open>Select t cols c v\<close> is \<open>from(t).select(cols).eq(c, v).single()\<close>;
  \<^item> \<open>Upsert t p c\<close> is \<open>from(t).upsert(p, {onConflict: c})\<close>;
  \<^item> \<open>StorageUpload b p f cc u\<close> is
    \<open>storage.from(b).upload(p, f, {cacheControl: cc, upsert: u})\<close>;
  \<^item> \<open>GetPublicUrl b p\<close> is \<open>storage.from(b).getPublicUrl(p)\<close>;
  \<^item> \<open>Toast k m i\<close> is \<open>toast.k(m, {id: i})\<close>, with \<open>None\<close> when the call
    passes no identifier;
  \<^item> \<open>ConsoleError l e\<close> is \<open>console.error(l, e)\<close>, and \<open>ConsoleLog l\<close> is
    \<open>console.log(l, data)\<close>.
\<close>

datatype effect =
    Select string string string int
  | Upsert string upsert_payload string
  | StorageUpload string string upload_file string bool
  | GetPublicUrl string string
  | Toast toast_kind string "toast_id option"
  | ConsoleError string js_error
  | ConsoleLog string

datatype field = BackgroundImageUrl | BackgroundColor | ScreensaverIdleMinutes

datatype zod_issue = InvalidType | NotInteger | TooSmall string

text \<open>
  The local variables of \<open>handleImageUpload\<close> that are still needed once its
  \<open>await\<close> has returned.
\<close>

record upload_task =
  task_filePath :: string
  task_uploadToastId :: toast_id

text \<open>
  The component: the form state of \<open>useForm\<close>, the preview of \<open>useState\<close>, the
  calls that wait at an \<open>await\<close> (of \<open>fetchSettings\<close>, of \<open>handleImageUpload\<close>
  and of \<open>onSubmit\<close>), and the effects issued so far.
\<close>

record ui_state =
  form :: form_values
  currentImageUrl :: jsval
  isSubmitting :: bool
  errors :: "(field \<times> zod_issue) list"
  loads :: nat
  uploads :: "upload_task list"
  inFlight :: nat
  effects :: "effect list"

definition emit :: "effect \<Rightarrow> ui_state \<Rightarrow> ui_state" where
  "emit e s = s\<lparr>effects := effects s @ [e]\<rparr>"

text \<open>\<open>setValue(field, v)\<close> of the form library.\<close>

fun setValue :: "field \<Rightarrow> jsval \<Rightarrow> ui_state \<Rightarrow> ui_state" where
  "setValue BackgroundImageUrl v s = s\<lparr>form := (form s)\<lparr>backgroundImageUrl := v\<rparr>\<rparr>"
| "setValue BackgroundColor v s = s\<lparr>form := (form s)\<lparr>backgroundColor := v\<rparr>\<rparr>"
| "setValue ScreensaverIdleMinutes v s = s\<lparr>form := (form s)\<lparr>screensaverIdleMinutes := v\<rparr>\<rparr>"

definition setCurrentImageUrl :: "jsval \<Rightarrow> ui_state \<Rightarrow> ui_state" where
  "setCurrentImageUrl v s = s\<lparr>currentImageUrl := v\<rparr>"

text \<open>\<open>defaultValues\<close> of \<open>useForm\<close> and the initial \<open>useState\<close>.\<close>

definition defaultValues :: form_values where
  "defaultValues =
     \<lparr>backgroundImageUrl = JNull,
      backgroundColor = JStr ''#0A0A0A'',
      screensaverIdleMinutes = JNum (Fin 5)\<rparr>"

definition initial :: ui_state where
  "initial =
     \<lparr>form = defaultValues, currentImageUrl = JNull, isSubmitting = False,
      errors = [], loads = 0, uploads = [], inFlight = 0, effects = []\<rparr>"

subsection \<open>Settings loader: \<open>fetchSettings\<close> (lines 34-53)\<close>

text \<open>
  An \<open>async\<close> function runs up to its \<open>await\<close>, and resumes when the reply is
  there; other handlers may run in between. Each such function is modelled by its two
  halves, \<open>_request\<close> and \<open>_reply\<close>, and by their composition, which is the function
  run without interruption.

  The guard \<open>error && error.code !== 'PGRST116'\<close> is \<open>fetch_failed\<close>: it yields the
  error when the guard holds.
\<close>

definition fetch_failed :: "js_error option \<Rightarrow> js_error option" where
  "fetch_failed err =
     (case err of None \<Rightarrow> None
      | Some e \<Rightarrow> if code e \<noteq> Some ''PGRST116'' then Some e else None)"

definition fetchSettings_request :: "ui_state \<Rightarrow> ui_state" where
  "fetchSettings_request s =
     emit (Select ''app_settings''
             ''background_image_url, background_color, screensaver_idle_minutes''
             ''id'' 1) s"

definition fetchSettings_reply :: "settings_row response \<Rightarrow> ui_state \<Rightarrow> ui_state" where
  "fetchSettings_reply resp s1 =
     (case fetch_failed (error resp) of
        Some e \<Rightarrow>
          (let s2 = emit (ConsoleError ''Error fetching display settings:'' e) s1
           in emit (Toast TError ''Gagal memuat pengaturan tampilan.'' None) s2)
      | None \<Rightarrow>
          (case data resp of
             None \<Rightarrow> s1
           | Some d \<Rightarrow>
               (let s2 = setValue BackgroundImageUrl (background_image_url d) s1;
                    s3 = setCurrentImageUrl (background_image_url d) s2;
                    s4 = setValue BackgroundColor
                           (js_or (background_color d) (JStr ''#0A0A0A'')) s3
                in setValue ScreensaverIdleMinutes
                     (js_or (screensaver_idle_minutes d) (JNum (Fin 5))) s4)))"

definition fetchSettings :: "settings_row response \<Rightarrow> ui_state \<Rightarrow> ui_state" where
  "fetchSettings resp s = fetchSettings_reply resp (fetchSettings_request s)"

subsection \<open>Image uploader: \<open>handleImageUpload\<close> (lines 55-94)\<close>

text \<open>
  What the outside world supplies during one upload: the fresh identifier of
  \<open>uuidv4()\<close>, the identifier \<open>toast.loading\<close> returns, the reply of the storage
  upload and the \<open>data\<close> of \<open>getPublicUrl\<close>.
\<close>

record upload_env =
  uuidv4 :: string
  toast_loading :: toast_id
  upload_reply :: "unit response"
  getPublicUrl_reply :: "public_url_data option"

text \<open>\<open>publicUrlData?.publicUrl\<close>\<close>

definition opt_publicUrl :: "public_url_data option \<Rightarrow> jsval" where
  "opt_publicUrl d = (case d of None \<Rightarrow> JUndefined | Some r \<Rightarrow> publicUrl r)"

text \<open>The path inside the bucket, lines 61-63.\<close>

definition filePath :: "string \<Rightarrow> upload_file \<Rightarrow> string" where
  "filePath uuid f =
     (let fileExtension = pop (split CHR ''.'' (name f));
          fileName = uuid @ ''.'' @ template fileExtension
      in ''backgrounds/'' @ fileName)"

text \<open>The \<open>catch\<close> block, lines 90-93.\<close>

definition upload_catch :: "toast_id \<Rightarrow> js_error \<Rightarrow> ui_state \<Rightarrow> ui_state" where
  "upload_catch uploadToastId e s =
     (let s1 = emit (ConsoleError ''Error uploading image:'' e) s
      in emit (Toast TError (''Gagal mengunggah gambar: '' @ message e) (Some uploadToastId)) s1)"

text \<open>Lines 61-73, for a file that is there: up to the \<open>await\<close> of the upload.\<close>

definition handleImageUpload_request ::
  "upload_file \<Rightarrow> string \<Rightarrow> toast_id \<Rightarrow> ui_state \<Rightarrow> upload_task \<times> ui_state" where
  "handleImageUpload_request f uuid uploadToastId s =
     (let path = filePath uuid f;
          s1 = emit (Toast TLoading ''Mengunggah gambar latar belakang...'' None) s;
          s2 = emit (StorageUpload ''images'' path f ''3600'' False) s1
      in (\<lparr>task_filePath = path, task_uploadToastId = uploadToastId\<rparr>, s2))"

text \<open>
  Lines 75-93: from the reply of the upload on. An upload that fails hands its error
  to the \<open>catch\<close> block, whether the client returns it or throws it.
\<close>

definition handleImageUpload_reply ::
  "upload_task \<Rightarrow> unit response \<Rightarrow> public_url_data option \<Rightarrow> ui_state \<Rightarrow> ui_state" where
  "handleImageUpload_reply task resp publicUrlData s2 =
     (case error resp of
        Some e \<Rightarrow> upload_catch (task_uploadToastId task) e s2
      | None \<Rightarrow>
          (let s3 = emit (GetPublicUrl ''images'' (task_filePath task)) s2;
               url = opt_publicUrl publicUrlData
           in if truthy url then
                (let s4 = setValue BackgroundImageUrl url s3;
                     s5 = setCurrentImageUrl url s4
                 in emit (Toast TSuccess ''Gambar latar belakang berhasil diunggah!''
                            (Some (task_uploadToastId task))) s5)
              else
                upload_catch (task_uploadToastId task)
                  \<lparr>code = None, message = ''Gagal mendapatkan URL publik gambar.''\<rparr> s3))"

definition handleImageUpload :: "upload_file option \<Rightarrow> upload_env \<Rightarrow> ui_state \<Rightarrow> ui_state" where
  "handleImageUpload file env s =
     (case file of
        None \<Rightarrow> s
      | Some f \<Rightarrow>
          (case handleImageUpload_request f (uuidv4 env) (toast_loading env) s of
             (task, s2) \<Rightarrow>
               handleImageUpload_reply task (upload_reply env) (getPublicUrl_reply env) s2))"

subsection \<open>Form validator: \<open>formSchema\<close> (lines 13-17)\<close>

text \<open>
  A schema of the validation library parses a value into the parsed value or an issue.
  The library runs every check and reports all issues; the resolver of the form keeps
  the first issue of each field, which is the one the model returns.
\<close>

type_synonym schema = "jsval \<Rightarrow> zod_issue + jsval"

text \<open>\<open>z.string()\<close>\<close>

definition z_string :: schema where
  "z_string v = (case v of JStr s \<Rightarrow> Inr (JStr s) | _ \<Rightarrow> Inl InvalidType)"

text \<open>\<open>.min(n, msg)\<close> on a string schema\<close>

definition min_length :: "nat \<Rightarrow> string \<Rightarrow> schema \<Rightarrow> schema" where
  "min_length n msg p v =
     (case p v of
        Inr (JStr s) \<Rightarrow> if length s < n then Inl (TooSmall msg) else Inr (JStr s)
      | r \<Rightarrow> r)"

text \<open>\<open>.nullable()\<close>, \<open>.optional()\<close>, \<open>.default(d)\<close>\<close>

definition nullable :: "schema \<Rightarrow> schema" where
  "nullable p v = (if v = JNull then Inr JNull else p v)"

definition optional :: "schema \<Rightarrow> schema" where
  "optional p v = (if v = JUndefined then Inr JUndefined else p v)"

definition default_to :: "jsval \<Rightarrow> schema \<Rightarrow> schema" where
  "default_to d p v = (if v = JUndefined then p d else p v)"

text \<open>\<open>z.coerce.number()\<close>: \<open>Number(v)\<close>, and NaN is not a number for the library.\<close>

definition z_coerce_number :: "(string \<Rightarrow> jsnum) \<Rightarrow> schema" where
  "z_coerce_number stn v =
     (case Number stn v of NaN \<Rightarrow> Inl InvalidType | n \<Rightarrow> Inr (JNum n))"

text \<open>\<open>.int()\<close> and \<open>.min(m, msg)\<close> on a number schema\<close>

definition int_check :: "schema \<Rightarrow> schema" where
  "int_check p v =
     (case p v of
        Inr (JNum n) \<Rightarrow> if isInteger n then Inr (JNum n) else Inl NotInteger
      | r \<Rightarrow> r)"

definition min_value :: "jsnum \<Rightarrow> string \<Rightarrow> schema \<Rightarrow> schema" where
  "min_value m msg p v =
     (case p v of
        Inr (JNum n) \<Rightarrow> if js_less n m then Inl (TooSmall msg) else Inr (JNum n)
      | r \<Rightarrow> r)"

definition schema_backgroundImageUrl :: schema where
  "schema_backgroundImageUrl = optional (nullable z_string)"

definition schema_backgroundColor :: schema where
  "schema_backgroundColor =
     default_to (JStr ''#0A0A0A'')
       (min_length 1 ''Warna latar belakang tidak boleh kosong.'' z_string)"

definition schema_screensaverIdleMinutes :: "(string \<Rightarrow> jsnum) \<Rightarrow> schema" where
  "schema_screensaverIdleMinutes stn =
     default_to (JNum (Fin 5))
       (min_value (Fin 1) ''Durasi screensaver harus minimal 1 menit.''
          (int_check (z_coerce_number stn)))"

definition issue_of :: "field \<Rightarrow> zod_issue + jsval \<Rightarrow> (field \<times> zod_issue) list" where
  "issue_of f r = (case r of Inl i \<Rightarrow> [(f, i)] | Inr v \<Rightarrow> [])"

text \<open>\<open>z.object({...})\<close> behind \<open>zodResolver\<close>: the parsed values, or the issues by field.\<close>

definition formSchema ::
  "(string \<Rightarrow> jsnum) \<Rightarrow> form_values \<Rightarrow> (field \<times> zod_issue) list + form_values" where
  "formSchema stn v =
     (let r1 = schema_backgroundImageUrl (backgroundImageUrl v);
          r2 = schema_backgroundColor (backgroundColor v);
          r3 = schema_screensaverIdleMinutes stn (screensaverIdleMinutes v)
      in case (r1, r2, r3) of
           (Inr a, Inr b, Inr c) \<Rightarrow>
             Inr \<lparr>backgroundImageUrl = a, backgroundColor = b, screensaverIdleMinutes = c\<rparr>
         | _ \<Rightarrow>
             Inl (issue_of BackgroundImageUrl r1 @ issue_of BackgroundColor r2
                  @ issue_of ScreensaverIdleMinutes r3))"

subsection \<open>Settings saver: \<open>onSubmit\<close> (lines 96-116)\<close>

text \<open>The object literal of lines 100-105.\<close>

definition payload :: "form_values \<Rightarrow> upsert_payload" where
  "payload values =
     \<lparr>background_image_url = js_or (backgroundImageUrl values) JNull,
      background_color = backgroundColor values,
      screensaver_idle_minutes = screensaverIdleMinutes values,
      row_id = 1\<rparr>"

text \<open>
  \<open>onSubmit\<close> up to its \<open>await\<close>, and from the reply on. \<open>onSubmit\<close> itself is the
  two in sequence.
\<close>

definition onSubmit_request :: "form_values \<Rightarrow> ui_state \<Rightarrow> ui_state" where
  "onSubmit_request values s = emit (Upsert ''app_settings'' (payload values) ''id'') s"

definition onSubmit_reply :: "unit response \<Rightarrow> ui_state \<Rightarrow> ui_state" where
  "onSubmit_reply resp s =
     (case error resp of
        Some e \<Rightarrow>
          (let s1 = emit (ConsoleError ''Error saving display settings:'' e) s
           in emit (Toast TError ''Gagal menyimpan pengaturan tampilan.'' None) s1)
      | None \<Rightarrow>
          (let s1 = emit (Toast TSuccess ''Pengaturan tampilan berhasil disimpan!'' None) s
           in emit (ConsoleLog ''Display settings saved:'') s1))"

definition onSubmit :: "form_values \<Rightarrow> unit response \<Rightarrow> ui_state \<Rightarrow> ui_state" where
  "onSubmit values resp s = onSubmit_reply resp (onSubmit_request values s)"

subsection \<open>The form element (lines 125-168)\<close>

text \<open>
  \<open>handleSubmit(onSubmit)\<close> of the form library: it raises \<open>isSubmitting\<close>, runs the
  resolver, and either records the issues or calls \<open>onSubmit\<close> with the parsed values;
  when \<open>onSubmit\<close> has returned it lowers \<open>isSubmitting\<close>. \<open>inFlight\<close> counts the
  calls of \<open>onSubmit\<close> that wait for their reply.
\<close>

definition handleSubmit_begin :: "(string \<Rightarrow> jsnum) \<Rightarrow> ui_state \<Rightarrow> ui_state" where
  "handleSubmit_begin stn s =
     (let s1 = s\<lparr>isSubmitting := True\<rparr>
      in case formSchema stn (form s1) of
           Inl issues \<Rightarrow> s1\<lparr>errors := issues, isSubmitting := False\<rparr>
         | Inr values \<Rightarrow>
             (onSubmit_request values (s1\<lparr>errors := []\<rparr>))\<lparr>inFlight := Suc (inFlight s1)\<rparr>)"

definition handleSubmit_end :: "unit response \<Rightarrow> ui_state \<Rightarrow> ui_state" where
  "handleSubmit_end resp s =
     (onSubmit_reply resp s)\<lparr>isSubmitting := False, inFlight := inFlight s - 1\<rparr>"

text \<open>The \<open>disabled\<close> attribute of the submit button, line 165.\<close>

definition submit_disabled :: "ui_state \<Rightarrow> bool" where
  "submit_disabled s = isSubmitting s"

text \<open>
  What can happen to the component, one event at a time, in any order:
  \<^item> the effect of \<open>useEffect\<close> runs and \<open>fetchSettings\<close> sends its request;
  \<^item> the reply to a pending \<open>fetchSettings\<close> arrives;
  \<^item> the file input changes, with the uuid and the toast identifier this call
    obtains, and \<open>handleImageUpload\<close> runs up to its \<open>await\<close>;
  \<^item> the reply to the \<open>k\<close>-th pending upload arrives, with what \<open>getPublicUrl\<close>
    returns for it;
  \<^item> the user types into one of the two registered inputs;
  \<^item> the user activates the submit button, which does nothing while the button is
    disabled;
  \<^item> the reply to a pending upsert arrives.
\<close>

datatype event =
    Mount
  | FetchReply "settings_row response"
  | FileChange "upload_file option" string toast_id
  | UploadReply nat "unit response" "public_url_data option"
  | ColorInput string
  | MinutesInput string
  | SubmitForm
  | UpsertReply "unit response"

fun step :: "(string \<Rightarrow> jsnum) \<Rightarrow> event \<Rightarrow> ui_state \<Rightarrow> ui_state" where
  "step stn Mount s = (fetchSettings_request s)\<lparr>loads := Suc (loads s)\<rparr>"
| "step stn (FetchReply resp) s =
     (if loads s = 0 then s else (fetchSettings_reply resp s)\<lparr>loads := loads s - 1\<rparr>)"
| "step stn (FileChange file uuid uploadToastId) s =
     (case file of
        None \<Rightarrow> s
      | Some f \<Rightarrow>
          (case handleImageUpload_request f uuid uploadToastId s of
             (task, s2) \<Rightarrow> s2\<lparr>uploads := uploads s @ [task]\<rparr>))"
| "step stn (UploadReply k resp publicUrlData) s =
     (if k < length (uploads s)
      then (handleImageUpload_reply (uploads s ! k) resp publicUrlData s)
             \<lparr>uploads := take k (uploads s) @ drop (Suc k) (uploads s)\<rparr>
      else s)"
| "step stn (ColorInput t) s = setValue BackgroundColor (JStr t) s"
| "step stn (MinutesInput t) s = setValue ScreensaverIdleMinutes (JStr t) s"
| "step stn SubmitForm s = (if submit_disabled s then s else handleSubmit_begin stn s)"
| "step stn (UpsertReply resp) s = (if inFlight s = 0 then s else handleSubmit_end resp s)"

definition run :: "(string \<Rightarrow> jsnum) \<Rightarrow> event list \<Rightarrow> ui_state \<Rightarrow> ui_state" where
  "run stn es s = foldl (\<lambda>s e. step stn e s) s es"

text \<open>The requests and notifications of one kind among the effects.\<close>

fun is_upsert :: "effect \<Rightarrow> bool" where
  "is_upsert (Upsert t p c) = True"
| "is_upsert e = False"

fun is_toast :: "toast_kind \<Rightarrow> effect \<Rightarrow> bool" where
  "is_toast k (Toast k' m i) = (k = k')"
| "is_toast k e = False"

fun is_console_error :: "effect \<Rightarrow> bool" where
  "is_console_error (ConsoleError l e) = True"
| "is_console_error e = False"

text \<open>
  The two notifications \<open>onSubmit\<close> ends with, one per call: each upsert that has been
  answered has produced exactly one of them.
\<close>

fun is_save_outcome :: "effect \<Rightarrow> bool" where
  "is_save_outcome (Toast k m i) =
     (i = None \<and> (k = TError \<and> m = ''Gagal menyimpan pengaturan tampilan.''
                 \<or> k = TSuccess \<and> m = ''Pengaturan tampilan berhasil disimpan!''))"
| "is_save_outcome e = False"

text \<open>The saves that have been started and have not reported their outcome yet.\<close>

definition saves_pending :: "ui_state \<Rightarrow> nat" where
  "saves_pending s =
     length (filter is_upsert (effects s)) - length (filter is_save_outcome (effects s))"

text \<open>
  What every state the component can reach satisfies: \<open>isSubmitting\<close> is raised
  exactly while one call of \<open>onSubmit\<close> waits for its reply, every upsert issued is
  either waiting or has reported its outcome, and the two registered inputs always hold
  a value.
\<close>

definition consistent :: "ui_state \<Rightarrow> bool" where
  "consistent s \<longleftrightarrow>
     inFlight s = (if isSubmitting s then 1 else 0)
     \<and> length (filter is_upsert (effects s))
         = inFlight s + length (filter is_save_outcome (effects s))
     \<and> backgroundColor (form s) \<noteq> JUndefined
     \<and> screensaverIdleMinutes (form s) \<noteq> JUndefined"

subsection \<open>Sample inputs\<close>

definition photo_png :: upload_file where
  "photo_png = \<lparr>name = ''photo.png'', content = ''PNG''\<rparr>"

definition README :: upload_file where
  "README = \<lparr>name = ''README'', content = ''text''\<rparr>"

definition upload_ok :: upload_env where
  "upload_ok =
     \<lparr>uuidv4 = ''9b1deb4d-3b7d-4bad-9bdd-2b0d7b3dcb6d'', toast_loading = 1,
      upload_reply = \<lparr>data = Some (), error = None\<rparr>,
      getPublicUrl_reply = Some \<lparr>publicUrl = JStr ''https://cdn.example/images/a.png''\<rparr>\<rparr>"

definition upload_no_url :: upload_env where
  "upload_no_url = upload_ok\<lparr>getPublicUrl_reply := Some \<lparr>publicUrl = JStr ''''\<rparr>\<rparr>"

text \<open>A string conversion that knows the two strings the samples type into the form.\<close>

definition sample_stn :: "string \<Rightarrow> jsnum" where
  "sample_stn t = (if t = ''0'' then Fin 0 else if t = ''10'' then Fin 10 else NaN)"

definition not_found_reply :: "settings_row response" where
  "not_found_reply =
     \<lparr>data = None, error = Some \<lparr>code = Some ''PGRST116'', message = ''no rows''\<rparr>\<rparr>"

definition denied_reply :: "settings_row response" where
  "denied_reply =
     \<lparr>data = None, error = Some \<lparr>code = Some ''42501'', message = ''permission denied''\<rparr>\<rparr>"




definition saved_reply :: "unit response" where
  "saved_reply = \<lparr>data = None, error = None\<rparr>"


section \<open>Properties\<close>

text \<open>
  The handlers only ever append to the effects, so what a handler has issued is what
  follows the effects of the state it started from. The helper facts below say, field
  by field, what each primitive and each handler leaves alone; the behaviour the
  specification describes follows, one theorem for each of its statements.
\<close>

subsection \<open>Helper facts\<close>

lemma split_not_Nil: "split c s \<noteq> []"
  by (induction s) (auto split: list.splits)

lemma split_no_separator: "c \<notin> set s \<Longrightarrow> split c s = [s]"
  by (induction s) auto

lemma split_append: "split c (xs @ c # ys) = split c xs @ split c ys"
  by (induction xs) (auto simp: split_not_Nil split: list.splits)

lemma last_split_append: "last (split c (xs @ c # ys)) = last (split c ys)"
  by (simp add: split_append split_not_Nil)

lemma pop_split_extension:
  "c \<notin> set ext \<Longrightarrow> pop (split c (base @ c # ext)) = Some ext"
  by (simp add: pop_def split_not_Nil last_split_append split_no_separator)

lemma filePath_extension:
  "name f = base @ ''.'' @ ext \<Longrightarrow> CHR ''.'' \<notin> set ext \<Longrightarrow>
   filePath uuid f = ''backgrounds/'' @ uuid @ ''.'' @ ext"
  using pop_split_extension[of "CHR ''.''" ext base]
  by (simp add: filePath_def template_def)

lemma effects_emit [simp]: "effects (emit e s) = effects s @ [e]"
  by (simp add: emit_def)

lemma form_emit [simp]: "form (emit e s) = form s"
  by (simp add: emit_def)

lemma currentImageUrl_emit [simp]: "currentImageUrl (emit e s) = currentImageUrl s"
  by (simp add: emit_def)

lemma isSubmitting_emit [simp]: "isSubmitting (emit e s) = isSubmitting s"
  by (simp add: emit_def)

lemma inFlight_emit [simp]: "inFlight (emit e s) = inFlight s"
  by (simp add: emit_def)

lemma effects_setValue [simp]: "effects (setValue f v s) = effects s"
  by (cases f) simp_all

lemma currentImageUrl_setValue [simp]: "currentImageUrl (setValue f v s) = currentImageUrl s"
  by (cases f) simp_all

lemma isSubmitting_setValue [simp]: "isSubmitting (setValue f v s) = isSubmitting s"
  by (cases f) simp_all

lemma inFlight_setValue [simp]: "inFlight (setValue f v s) = inFlight s"
  by (cases f) simp_all

lemma effects_setCurrentImageUrl [simp]: "effects (setCurrentImageUrl v s) = effects s"
  by (simp add: setCurrentImageUrl_def)

lemma form_setCurrentImageUrl [simp]: "form (setCurrentImageUrl v s) = form s"
  by (simp add: setCurrentImageUrl_def)

lemma currentImageUrl_setCurrentImageUrl [simp]:
  "currentImageUrl (setCurrentImageUrl v s) = v"
  by (simp add: setCurrentImageUrl_def)

lemma isSubmitting_setCurrentImageUrl [simp]:
  "isSubmitting (setCurrentImageUrl v s) = isSubmitting s"
  by (simp add: setCurrentImageUrl_def)

lemma inFlight_setCurrentImageUrl [simp]: "inFlight (setCurrentImageUrl v s) = inFlight s"
  by (simp add: setCurrentImageUrl_def)

lemma effects_upload_catch [simp]:
  "effects (upload_catch i e s) =
     effects s @ [ConsoleError ''Error uploading image:'' e,
                  Toast TError (''Gagal mengunggah gambar: '' @ message e) (Some i)]"
  by (simp add: upload_catch_def Let_def)

lemma form_upload_catch [simp]: "form (upload_catch i e s) = form s"
  by (simp add: upload_catch_def Let_def)

lemma currentImageUrl_upload_catch [simp]:
  "currentImageUrl (upload_catch i e s) = currentImageUrl s"
  by (simp add: upload_catch_def Let_def)

lemma schema_backgroundImageUrl_ok:
  "v = JUndefined \<or> v = JNull \<or> (\<exists>u. v = JStr u) \<Longrightarrow> schema_backgroundImageUrl v = Inr v"
  by (auto simp: schema_backgroundImageUrl_def optional_def nullable_def z_string_def)

lemma schema_backgroundColor_str:
  "schema_backgroundColor (JStr c) =
     (if c = [] then Inl (TooSmall ''Warna latar belakang tidak boleh kosong.'')
      else Inr (JStr c))"
  by (cases c) (simp_all add: schema_backgroundColor_def default_to_def min_length_def z_string_def)

lemma schema_minutes_ok:
  "Number stn v = Fin (of_int n) \<Longrightarrow> 1 \<le> n \<Longrightarrow>
   schema_screensaverIdleMinutes stn v = Inr (JNum (Fin (of_int n)))"
  by (cases v)
     (auto simp: schema_screensaverIdleMinutes_def default_to_def min_value_def int_check_def
        z_coerce_number_def)

lemma schema_minutes_blocked:
  assumes "v \<noteq> JUndefined"
      and "Number stn v = NaN \<or> Number stn v = NegInf \<or> (\<exists>q. Number stn v = Fin q \<and> q \<le> 0)"
  shows "\<exists>i. schema_screensaverIdleMinutes stn v = Inl i"
  using assms
  by (auto simp: schema_screensaverIdleMinutes_def default_to_def min_value_def int_check_def
        z_coerce_number_def)

lemma formSchema_minutes_issue:
  "schema_screensaverIdleMinutes stn (screensaverIdleMinutes v) = Inl i \<Longrightarrow>
   \<exists>issues. formSchema stn v = Inl issues \<and> (ScreensaverIdleMinutes, i) \<in> set issues"
  by (auto simp: formSchema_def issue_of_def Let_def split: sum.splits)

lemma formSchema_color_issue:
  "schema_backgroundColor (backgroundColor v) = Inl i \<Longrightarrow>
   \<exists>issues. formSchema stn v = Inl issues \<and> (BackgroundColor, i) \<in> set issues"
  by (auto simp: formSchema_def issue_of_def Let_def split: sum.splits)

lemma handleSubmit_begin_invalid:
  "formSchema stn (form s) = Inl issues \<Longrightarrow>
   handleSubmit_begin stn s = s\<lparr>errors := issues, isSubmitting := False\<rparr>"
  by (simp add: handleSubmit_begin_def Let_def)

lemma handleSubmit_begin_valid:
  "formSchema stn (form s) = Inr values \<Longrightarrow>
   handleSubmit_begin stn s =
     s\<lparr>isSubmitting := True, errors := [],
       effects := effects s @ [Upsert ''app_settings'' (payload values) ''id''],
       inFlight := Suc (inFlight s)\<rparr>"
  by (simp add: handleSubmit_begin_def onSubmit_request_def emit_def Let_def)

lemma js_or_defined: "d \<noteq> JUndefined \<Longrightarrow> js_or v d \<noteq> JUndefined"
  by (cases v) (auto simp: js_or_def)

lemma consistent_fetchSettings_request: "consistent s \<Longrightarrow> consistent (fetchSettings_request s)"
  by (simp add: consistent_def fetchSettings_request_def)

lemma consistent_fetchSettings_reply: "consistent s \<Longrightarrow> consistent (fetchSettings_reply resp s)"
  by (simp add: consistent_def fetchSettings_reply_def Let_def js_or_defined
        split: option.splits)

lemma consistent_handleImageUpload_request:
  "consistent s \<Longrightarrow> consistent (snd (handleImageUpload_request f uuid i s))"
  by (simp add: consistent_def handleImageUpload_request_def Let_def)

lemma consistent_handleImageUpload_reply:
  "consistent s \<Longrightarrow> consistent (handleImageUpload_reply task resp d s)"
  by (simp add: consistent_def handleImageUpload_reply_def upload_catch_def Let_def
        split: option.splits)

lemma consistent_bookkeeping:
  "consistent s \<Longrightarrow> consistent (s\<lparr>loads := n\<rparr>)"
  "consistent s \<Longrightarrow> consistent (s\<lparr>uploads := ts\<rparr>)"
  by (simp_all add: consistent_def)

lemma consistent_input:
  "consistent s \<Longrightarrow> consistent (s\<lparr>form := (form s)\<lparr>backgroundColor := JStr t\<rparr>\<rparr>)"
  "consistent s \<Longrightarrow> consistent (s\<lparr>form := (form s)\<lparr>screensaverIdleMinutes := JStr t\<rparr>\<rparr>)"
  by (simp_all add: consistent_def)

lemma consistent_handleSubmit_begin:
  "consistent s \<Longrightarrow> \<not> isSubmitting s \<Longrightarrow> consistent (handleSubmit_begin stn s)"
  by (cases "formSchema stn (form s)")
     (simp_all add: consistent_def handleSubmit_begin_invalid handleSubmit_begin_valid)

lemma handleSubmit_end_eq:
  "handleSubmit_end resp s =
     s\<lparr>isSubmitting := False, inFlight := inFlight s - 1,
       effects := effects s @
         (case error resp of
            Some e \<Rightarrow> [ConsoleError ''Error saving display settings:'' e,
                       Toast TError ''Gagal menyimpan pengaturan tampilan.'' None]
          | None \<Rightarrow> [Toast TSuccess ''Pengaturan tampilan berhasil disimpan!'' None,
                     ConsoleLog ''Display settings saved:''])\<rparr>"
  by (simp add: handleSubmit_end_def onSubmit_reply_def emit_def Let_def split: option.splits)

lemma consistent_handleSubmit_end:
  "consistent s \<Longrightarrow> inFlight s \<noteq> 0 \<Longrightarrow> consistent (handleSubmit_end resp s)"
  by (auto simp: consistent_def handleSubmit_end_eq split: option.splits if_splits)

lemma consistent_step: "consistent s \<Longrightarrow> consistent (step stn e s)"
proof (cases e)
  case (FileChange picked uuid i)
  assume c: "consistent s"
  show ?thesis
  proof (cases picked)
    case None
    with c FileChange show ?thesis by simp
  next
    case (Some f)
    obtain task s2 where r: "handleImageUpload_request f uuid i s = (task, s2)"
      by (cases "handleImageUpload_request f uuid i s")
    have "consistent s2"
      using consistent_handleImageUpload_request[OF c, of f uuid i] r by simp
    then show ?thesis
      using FileChange Some r by (simp add: consistent_bookkeeping)
  qed
qed (simp_all add: consistent_fetchSettings_request consistent_fetchSettings_reply
       consistent_handleImageUpload_reply consistent_bookkeeping consistent_input
       consistent_handleSubmit_begin consistent_handleSubmit_end submit_disabled_def)

lemma consistent_initial: "consistent initial"
  by (simp add: consistent_def initial_def defaultValues_def)

lemma consistent_run: "consistent (run stn es initial)"
  by (induction es rule: rev_induct) (simp_all add: run_def consistent_initial consistent_step)

lemma formSchema_valid:
  assumes "backgroundImageUrl v = JUndefined \<or> backgroundImageUrl v = JNull
           \<or> (\<exists>u. backgroundImageUrl v = JStr u)"
      and "backgroundColor v = JStr c" and "c \<noteq> []"
      and "Number stn (screensaverIdleMinutes v) = Fin (of_int n)" and "1 \<le> n"
  shows "formSchema stn v =
           Inr \<lparr>backgroundImageUrl = backgroundImageUrl v, backgroundColor = JStr c,
                screensaverIdleMinutes = JNum (Fin (of_int n))\<rparr>"
  using schema_backgroundImageUrl_ok[OF assms(1)] schema_minutes_ok[OF assms(4,5)] assms(2,3)
  by (simp add: formSchema_def schema_backgroundColor_str)

lemma form_initial: "form initial = defaultValues"
  by (simp add: initial_def)

lemma effects_initial: "effects initial = []"
  by (simp add: initial_def)

subsection \<open>The specified behaviour\<close>

text \<open>
  C1: When the picked file's name ends in \<open>.ext\<close> (with no further dot in
  \<open>ext\<close>), the upload goes to bucket \<open>images\<close> at the path
  \<open>backgrounds/<uuid>.ext\<close>, 49 characters plus the extension for a
  36-character uuid. The upload issues no upsert, whatever its outcome. When the storage
  reply carries no error and \<open>getPublicUrl\<close> returns a data object \<open>r\<close> whose
  \<open>publicUrl\<close> is truthy, the form's \<open>backgroundImageUrl\<close> and the preview both
  hold \<open>publicUrl r\<close> afterwards, and the upload has issued the loading
  notification, the storage upload, the URL request and the success notification that
  replaces the loading one, and nothing else.
\<close>

theorem upload_targets_backgrounds_path:
  assumes "name f = base @ ''.'' @ ext" and "CHR ''.'' \<notin> set ext"
  shows "filePath (uuidv4 env) f = ''backgrounds/'' @ uuidv4 env @ ''.'' @ ext
    \<and> (length (uuidv4 env) = 36 \<longrightarrow> length (filePath (uuidv4 env) f) = 49 + length ext)
    \<and> (\<exists>rest. effects (handleImageUpload (Some f) env s) =
          effects s @ Toast TLoading ''Mengunggah gambar latar belakang...'' None
            # StorageUpload ''images'' (''backgrounds/'' @ uuidv4 env @ ''.'' @ ext) f ''3600'' False
            # rest
          \<and> \<not> list_ex is_upsert rest)
    \<and> (error (upload_reply env) = None \<and> getPublicUrl_reply env = Some r
         \<and> truthy (publicUrl r) \<longrightarrow>
          backgroundImageUrl (form (handleImageUpload (Some f) env s)) = publicUrl r
          \<and> currentImageUrl (handleImageUpload (Some f) env s) = publicUrl r
          \<and> effects (handleImageUpload (Some f) env s) =
              effects s @
              [Toast TLoading ''Mengunggah gambar latar belakang...'' None,
               StorageUpload ''images'' (''backgrounds/'' @ uuidv4 env @ ''.'' @ ext) f
                 ''3600'' False,
               GetPublicUrl ''images'' (''backgrounds/'' @ uuidv4 env @ ''.'' @ ext),
               Toast TSuccess ''Gambar latar belakang berhasil diunggah!''
                 (Some (toast_loading env))])"
proof -
  have p: "filePath (uuidv4 env) f = ''backgrounds/'' @ uuidv4 env @ ''.'' @ ext"
    using assms by (rule filePath_extension)
  have "\<exists>rest. effects (handleImageUpload (Some f) env s) =
          effects s @ Toast TLoading ''Mengunggah gambar latar belakang...'' None
                    # StorageUpload ''images'' (filePath (uuidv4 env) f) f ''3600'' False # rest
          \<and> \<not> list_ex is_upsert rest"
    by (simp add: handleImageUpload_def handleImageUpload_request_def
        handleImageUpload_reply_def Let_def split: option.splits)
  then have e: "\<exists>rest. effects (handleImageUpload (Some f) env s) =
          effects s @ Toast TLoading ''Mengunggah gambar latar belakang...'' None
            # StorageUpload ''images'' (''backgrounds/'' @ uuidv4 env @ ''.'' @ ext) f ''3600'' False
            # rest
          \<and> \<not> list_ex is_upsert rest"
    by (simp only: p)
  have "error (upload_reply env) = None \<and> getPublicUrl_reply env = Some r
         \<and> truthy (publicUrl r) \<longrightarrow>
          backgroundImageUrl (form (handleImageUpload (Some f) env s)) = publicUrl r
          \<and> currentImageUrl (handleImageUpload (Some f) env s) = publicUrl r
          \<and> effects (handleImageUpload (Some f) env s) =
              effects s @
              [Toast TLoading ''Mengunggah gambar latar belakang...'' None,
               StorageUpload ''images'' (filePath (uuidv4 env) f) f ''3600'' False,
               GetPublicUrl ''images'' (filePath (uuidv4 env) f),
               Toast TSuccess ''Gambar latar belakang berhasil diunggah!''
                 (Some (toast_loading env))]"
    by (simp add: handleImageUpload_def handleImageUpload_request_def
        handleImageUpload_reply_def opt_publicUrl_def Let_def)
  then have u: "error (upload_reply env) = None \<and> getPublicUrl_reply env = Some r
         \<and> truthy (publicUrl r) \<longrightarrow>
          backgroundImageUrl (form (handleImageUpload (Some f) env s)) = publicUrl r
          \<and> currentImageUrl (handleImageUpload (Some f) env s) = publicUrl r
          \<and> effects (handleImageUpload (Some f) env s) =
              effects s @
              [Toast TLoading ''Mengunggah gambar latar belakang...'' None,
               StorageUpload ''images'' (''backgrounds/'' @ uuidv4 env @ ''.'' @ ext) f
                 ''3600'' False,
               GetPublicUrl ''images'' (''backgrounds/'' @ uuidv4 env @ ''.'' @ ext),
               Toast TSuccess ''Gambar latar belakang berhasil diunggah!''
                 (Some (toast_loading env))]"
    by (simp only: p)
  from p e u show ?thesis by simp
qed

text \<open>The same at a sample input.\<close>

theorem upload_targets_backgrounds_path_witness:
  "name photo_png = ''photo'' @ ''.'' @ ''png'' \<and> CHR ''.'' \<notin> set ''png''
   \<and> length (uuidv4 upload_ok) = 36
   \<and> error (upload_reply upload_ok) = None
   \<and> getPublicUrl_reply upload_ok = Some \<lparr>publicUrl = JStr ''https://cdn.example/images/a.png''\<rparr>
   \<and> truthy (publicUrl \<lparr>publicUrl = JStr ''https://cdn.example/images/a.png''\<rparr>)
   \<and> filePath (uuidv4 upload_ok) photo_png
       = ''backgrounds/9b1deb4d-3b7d-4bad-9bdd-2b0d7b3dcb6d.png''
   \<and> length (filePath (uuidv4 upload_ok) photo_png) = 52
   \<and> backgroundImageUrl (form (handleImageUpload (Some photo_png) upload_ok initial))
       = JStr ''https://cdn.example/images/a.png''
   \<and> currentImageUrl (handleImageUpload (Some photo_png) upload_ok initial)
       = JStr ''https://cdn.example/images/a.png''"
proof -
  have h1: "name photo_png = ''photo'' @ ''.'' @ ''png''" by (simp add: photo_png_def)
  have h2: "CHR ''.'' \<notin> set ''png''" by simp
  have h3: "length (uuidv4 upload_ok) = 36" by (simp add: upload_ok_def)
  have h4: "error (upload_reply upload_ok) = None
            \<and> getPublicUrl_reply upload_ok
                = Some \<lparr>publicUrl = JStr ''https://cdn.example/images/a.png''\<rparr>"
    by (simp add: upload_ok_def)
  have v: "uuidv4 upload_ok = ''9b1deb4d-3b7d-4bad-9bdd-2b0d7b3dcb6d''"
    by (simp add: upload_ok_def)
  show ?thesis
    using upload_targets_backgrounds_path[OF h1 h2, where env = upload_ok and s = initial
        and r = "\<lparr>publicUrl = JStr ''https://cdn.example/images/a.png''\<rparr>"] h1 h2 h3 h4
    by (simp add: v)
qed

text \<open>
  C2: When \<open>backgroundImageUrl\<close> is falsy (the empty string, null,
  undefined), the one upsert that \<open>onSubmit\<close> issues carries null for
  \<open>background_image_url\<close>, not the empty string. The same holds for a
  submission of a form whose field is falsy and whose values pass validation.
\<close>

theorem falsy_image_url_saved_as_null:
  "(\<not> truthy (backgroundImageUrl values) \<longrightarrow>
      filter is_upsert (effects (onSubmit values resp s))
        = filter is_upsert (effects s) @ [Upsert ''app_settings'' (payload values) ''id'']
      \<and> background_image_url (payload values) = JNull
      \<and> background_image_url (payload values) \<noteq> JStr [])
   \<and> (\<not> truthy (backgroundImageUrl (form s)) \<and> formSchema stn (form s) = Inr values \<longrightarrow>
      effects (handleSubmit_begin stn s)
        = effects s @ [Upsert ''app_settings'' (payload values) ''id'']
      \<and> background_image_url (payload values) = JNull)"
proof -
  have a: "filter is_upsert (effects (onSubmit values resp s))
        = filter is_upsert (effects s) @ [Upsert ''app_settings'' (payload values) ''id'']"
    by (simp add: onSubmit_def onSubmit_request_def onSubmit_reply_def Let_def
        split: option.splits)
  have b: "\<not> truthy (backgroundImageUrl values) \<Longrightarrow> background_image_url (payload values) = JNull"
    by (simp add: payload_def js_or_def)
  have c: "formSchema stn (form s) = Inr values \<Longrightarrow>
           backgroundImageUrl values = backgroundImageUrl (form s)"
    by (auto simp: formSchema_def Let_def schema_backgroundImageUrl_def optional_def
        nullable_def z_string_def split: sum.splits if_splits jsval.splits)
  show ?thesis using a b c by (auto simp: handleSubmit_begin_valid)
qed

text \<open>The same at a sample input.\<close>

theorem falsy_image_url_saved_as_null_witness:
  "\<not> truthy (backgroundImageUrl (defaultValues\<lparr>backgroundImageUrl := JStr ''''\<rparr>))
   \<and> \<not> truthy (backgroundImageUrl (form (setValue BackgroundImageUrl (JStr '''') initial)))
   \<and> formSchema sample_stn (form (setValue BackgroundImageUrl (JStr '''') initial))
       = Inr (defaultValues\<lparr>backgroundImageUrl := JStr ''''\<rparr>)
   \<and> filter is_upsert
       (effects (onSubmit (defaultValues\<lparr>backgroundImageUrl := JStr ''''\<rparr>) saved_reply
          (setValue BackgroundImageUrl (JStr '''') initial)))
       = [Upsert ''app_settings''
            \<lparr>background_image_url = JNull, background_color = JStr ''#0A0A0A'',
             screensaver_idle_minutes = JNum (Fin 5), row_id = 1\<rparr> ''id'']
   \<and> effects (handleSubmit_begin sample_stn (setValue BackgroundImageUrl (JStr '''') initial))
       = [Upsert ''app_settings''
            \<lparr>background_image_url = JNull, background_color = JStr ''#0A0A0A'',
             screensaver_idle_minutes = JNum (Fin 5), row_id = 1\<rparr> ''id'']"
proof -
  have h1: "\<not> truthy (backgroundImageUrl (defaultValues\<lparr>backgroundImageUrl := JStr ''''\<rparr>))"
    by simp
  have h2: "\<not> truthy (backgroundImageUrl (form (setValue BackgroundImageUrl (JStr '''') initial)))"
    by simp
  have h3: "formSchema sample_stn (form (setValue BackgroundImageUrl (JStr '''') initial))
       = Inr (defaultValues\<lparr>backgroundImageUrl := JStr ''''\<rparr>)"
    using formSchema_valid
      [of "defaultValues\<lparr>backgroundImageUrl := JStr ''''\<rparr>" "''#0A0A0A''" sample_stn 5]
    by (simp add: form_initial defaultValues_def)
  have p: "payload (defaultValues\<lparr>backgroundImageUrl := JStr ''''\<rparr>) =
            \<lparr>background_image_url = JNull, background_color = JStr ''#0A0A0A'',
             screensaver_idle_minutes = JNum (Fin 5), row_id = 1\<rparr>"
    by (simp add: payload_def js_or_def defaultValues_def)
  show ?thesis
    using falsy_image_url_saved_as_null
      [of "defaultValues\<lparr>backgroundImageUrl := JStr ''''\<rparr>" saved_reply
          "setValue BackgroundImageUrl (JStr '''') initial" sample_stn] h1 h2 h3
    by (simp add: p effects_initial)
qed

text \<open>
  C3: In every state the component can reach, if \<open>screensaverIdleMinutes\<close>
  coerces to 0, to a negative number or to NaN (a non-numeric text), or if
  \<open>backgroundColor\<close> is the empty string, then validation reports an issue,
  \<open>handleSubmit\<close> only records the issues, and activating submit issues no
  effect at all, hence no upsert.
\<close>

theorem invalid_submission_blocked:
  assumes "s = run stn es initial"
      and "Number stn (screensaverIdleMinutes (form s)) = NaN
           \<or> Number stn (screensaverIdleMinutes (form s)) = NegInf
           \<or> (\<exists>q. Number stn (screensaverIdleMinutes (form s)) = Fin q \<and> q \<le> 0)
           \<or> backgroundColor (form s) = JStr []"
  shows "(\<exists>issues. issues \<noteq> [] \<and> formSchema stn (form s) = Inl issues
            \<and> handleSubmit_begin stn s = s\<lparr>errors := issues, isSubmitting := False\<rparr>)
         \<and> effects (step stn SubmitForm s) = effects s
         \<and> \<not> list_ex is_upsert (drop (length (effects s)) (effects (step stn SubmitForm s)))"
proof -
  have "consistent s" using assms(1) by (simp add: consistent_run)
  then have d: "screensaverIdleMinutes (form s) \<noteq> JUndefined"
    by (simp add: consistent_def)
  have "\<exists>issues. issues \<noteq> [] \<and> formSchema stn (form s) = Inl issues"
  proof (cases "backgroundColor (form s) = JStr []")
    case True
    then show ?thesis
      using formSchema_color_issue[of "form s" _ stn] by (fastforce simp: schema_backgroundColor_str)
  next
    case False
    with assms(2) obtain i where "schema_screensaverIdleMinutes stn (screensaverIdleMinutes (form s)) = Inl i"
      using schema_minutes_blocked[OF d] by blast
    then show ?thesis
      using formSchema_minutes_issue[of stn "form s" i] by fastforce
  qed
  then obtain issues where i: "issues \<noteq> []" "formSchema stn (form s) = Inl issues"
    by blast
  then show ?thesis
    by (auto simp: handleSubmit_begin_invalid)
qed

text \<open>The same at a sample input.\<close>

theorem invalid_submission_blocked_witness:
  "Number sample_stn (screensaverIdleMinutes (form (run sample_stn [MinutesInput ''0''] initial)))
     = Fin 0
   \<and> formSchema sample_stn (form (run sample_stn [MinutesInput ''0''] initial))
       = Inl [(ScreensaverIdleMinutes, TooSmall ''Durasi screensaver harus minimal 1 menit.'')]
   \<and> effects (step sample_stn SubmitForm (run sample_stn [MinutesInput ''0''] initial)) = []"
proof -
  have f: "form (run sample_stn [MinutesInput ''0''] initial)
             = defaultValues\<lparr>screensaverIdleMinutes := JStr ''0''\<rparr>"
    by (simp add: run_def form_initial)
  have h: "Number sample_stn (screensaverIdleMinutes (form (run sample_stn [MinutesInput ''0''] initial)))
     = Fin 0"
    by (simp add: f sample_stn_def)
  have v: "formSchema sample_stn (form (run sample_stn [MinutesInput ''0''] initial))
       = Inl [(ScreensaverIdleMinutes, TooSmall ''Durasi screensaver harus minimal 1 menit.'')]"
    by (simp add: f formSchema_def defaultValues_def schema_backgroundImageUrl_def optional_def
        nullable_def schema_backgroundColor_str schema_screensaverIdleMinutes_def default_to_def
        min_value_def int_check_def z_coerce_number_def sample_stn_def issue_of_def)
  have e: "effects (run sample_stn [MinutesInput ''0''] initial) = []"
    by (simp add: run_def effects_initial)
  show ?thesis
    using invalid_submission_blocked
      [of "run sample_stn [MinutesInput ''0''] initial" sample_stn "[MinutesInput ''0'']"] h v
    by (simp add: e)
qed

text \<open>
  C4: When the fields are valid (the image URL is undefined, null or a string; the
  colour is a non-empty string; the minutes coerce to an integer \<open>n \<ge>
  1\<close>), a submission issues exactly one upsert, on \<open>app_settings\<close>,
  with \<open>id = 1\<close> and conflict target \<open>id\<close>, whatever the backend
  replies; when the reply carries no error, that upsert is followed by exactly one
  success notification.
\<close>

theorem valid_submission_upserts_once:
  assumes "backgroundImageUrl (form s) = JUndefined \<or> backgroundImageUrl (form s) = JNull
           \<or> (\<exists>u. backgroundImageUrl (form s) = JStr u)"
      and "backgroundColor (form s) = JStr c" and "c \<noteq> []"
      and "Number stn (screensaverIdleMinutes (form s)) = Fin (of_int n)" and "1 \<le> n"
      and "p = \<lparr>background_image_url = js_or (backgroundImageUrl (form s)) JNull,
                background_color = JStr c,
                screensaver_idle_minutes = JNum (Fin (of_int n)), row_id = 1\<rparr>"
  shows "effects (handleSubmit_begin stn s) = effects s @ [Upsert ''app_settings'' p ''id'']
         \<and> filter is_upsert (effects (handleSubmit_end resp (handleSubmit_begin stn s)))
             = filter is_upsert (effects s) @ [Upsert ''app_settings'' p ''id'']
         \<and> (error resp = None \<longrightarrow>
              effects (handleSubmit_end resp (handleSubmit_begin stn s))
                = effects s @ [Upsert ''app_settings'' p ''id'',
                               Toast TSuccess ''Pengaturan tampilan berhasil disimpan!'' None,
                               ConsoleLog ''Display settings saved:''])"
  using formSchema_valid[OF assms(1-5)] assms(6)
  by (simp add: handleSubmit_begin_valid handleSubmit_end_eq payload_def split: option.splits)

text \<open>The same at a sample input.\<close>

theorem valid_submission_upserts_once_witness:
  "backgroundImageUrl (form (run sample_stn [ColorInput ''#FF0000'', MinutesInput ''10''] initial))
     = JNull
   \<and> backgroundColor (form (run sample_stn [ColorInput ''#FF0000'', MinutesInput ''10''] initial))
     = JStr ''#FF0000''
   \<and> Number sample_stn
       (screensaverIdleMinutes
         (form (run sample_stn [ColorInput ''#FF0000'', MinutesInput ''10''] initial)))
     = Fin (of_int 10)
   \<and> effects (handleSubmit_end saved_reply
       (handleSubmit_begin sample_stn
         (run sample_stn [ColorInput ''#FF0000'', MinutesInput ''10''] initial)))
     = [Upsert ''app_settings''
          \<lparr>background_image_url = JNull, background_color = JStr ''#FF0000'',
           screensaver_idle_minutes = JNum (Fin 10), row_id = 1\<rparr> ''id'',
        Toast TSuccess ''Pengaturan tampilan berhasil disimpan!'' None,
        ConsoleLog ''Display settings saved:'']"
proof -
  let ?s = "run sample_stn [ColorInput ''#FF0000'', MinutesInput ''10''] initial"
  have f: "form ?s = \<lparr>backgroundImageUrl = JNull, backgroundColor = JStr ''#FF0000'',
                       screensaverIdleMinutes = JStr ''10''\<rparr>"
    by (simp add: run_def form_initial defaultValues_def)
  have e: "effects ?s = []"
    by (simp add: run_def effects_initial)
  have h1: "backgroundImageUrl (form ?s) = JUndefined \<or> backgroundImageUrl (form ?s) = JNull
           \<or> (\<exists>u. backgroundImageUrl (form ?s) = JStr u)"
    by (simp add: f)
  have h2: "backgroundColor (form ?s) = JStr ''#FF0000''" by (simp add: f)
  have h3: "''#FF0000'' \<noteq> []" by simp
  have h4: "Number sample_stn (screensaverIdleMinutes (form ?s)) = Fin (of_int 10)"
    by (simp add: f sample_stn_def)
  have h5: "(1::int) \<le> 10" by simp
  have r: "error saved_reply = None" by (simp add: saved_reply_def)
  show ?thesis
    using valid_submission_upserts_once[OF h1 h2 h3 h4 h5 refl, of saved_reply] h2 h4 r
    by (simp add: f e js_or_def)
qed

text \<open>
  C5: When the reply to the load carries the error code \<open>PGRST116\<close> and no
  row, the loader has issued its select request and nothing else, and the form and the
  preview are as they were. On mount that means: the form holds its defaults (null,
  \<open>#0A0A0A\<close>, 5), the preview is null, and there is no error notification.
\<close>

theorem load_not_found_keeps_defaults:
  assumes "error resp = Some e" and "code e = Some ''PGRST116''" and "data resp = None"
  shows "effects (fetchSettings resp s) =
           effects s @
           [Select ''app_settings''
              ''background_image_url, background_color, screensaver_idle_minutes'' ''id'' 1]
         \<and> form (fetchSettings resp s) = form s
         \<and> currentImageUrl (fetchSettings resp s) = currentImageUrl s
         \<and> form (fetchSettings resp initial) =
             \<lparr>backgroundImageUrl = JNull, backgroundColor = JStr ''#0A0A0A'',
              screensaverIdleMinutes = JNum (Fin 5)\<rparr>
         \<and> currentImageUrl (fetchSettings resp initial) = JNull
         \<and> \<not> list_ex (is_toast TError) (effects (fetchSettings resp initial))"
  using assms
  by (simp add: fetchSettings_def fetchSettings_request_def fetchSettings_reply_def
      fetch_failed_def initial_def defaultValues_def)

text \<open>The same at a sample input.\<close>

theorem load_not_found_keeps_defaults_witness:
  "error not_found_reply = Some \<lparr>code = Some ''PGRST116'', message = ''no rows''\<rparr>
   \<and> code \<lparr>code = Some ''PGRST116'', message = ''no rows''\<rparr> = Some ''PGRST116''
   \<and> data not_found_reply = None
   \<and> form (fetchSettings not_found_reply initial) =
       \<lparr>backgroundImageUrl = JNull, backgroundColor = JStr ''#0A0A0A'',
        screensaverIdleMinutes = JNum (Fin 5)\<rparr>
   \<and> \<not> list_ex (is_toast TError) (effects (fetchSettings not_found_reply initial))"
proof -
  have h1: "error not_found_reply = Some \<lparr>code = Some ''PGRST116'', message = ''no rows''\<rparr>"
    by (simp add: not_found_reply_def)
  have h2: "code \<lparr>code = Some ''PGRST116'', message = ''no rows''\<rparr> = Some ''PGRST116''"
    by simp
  have h3: "data not_found_reply = None"
    by (simp add: not_found_reply_def)
  show ?thesis
    using load_not_found_keeps_defaults[OF h1 h2 h3, of initial] h1 h3
    by (simp add: initial_def defaultValues_def)
qed

text \<open>
  C6: When the reply to the load carries an error with any other code (or with none),
  the loader logs the error and shows one error notification, and the form and the
  preview are as they were. On mount that means: exactly one error notification, exactly
  one logged error, and the form holds its defaults.
\<close>

theorem load_failure_notifies_once:
  assumes "error resp = Some e" and "code e \<noteq> Some ''PGRST116''"
  shows "effects (fetchSettings resp s) =
           effects s @
           [Select ''app_settings''
              ''background_image_url, background_color, screensaver_idle_minutes'' ''id'' 1,
            ConsoleError ''Error fetching display settings:'' e,
            Toast TError ''Gagal memuat pengaturan tampilan.'' None]
         \<and> form (fetchSettings resp s) = form s
         \<and> currentImageUrl (fetchSettings resp s) = currentImageUrl s
         \<and> length (filter (is_toast TError) (effects (fetchSettings resp initial))) = 1
         \<and> length (filter is_console_error (effects (fetchSettings resp initial))) = 1
         \<and> form (fetchSettings resp initial) =
             \<lparr>backgroundImageUrl = JNull, backgroundColor = JStr ''#0A0A0A'',
              screensaverIdleMinutes = JNum (Fin 5)\<rparr>"
  using assms
  by (simp add: fetchSettings_def fetchSettings_request_def fetchSettings_reply_def
      fetch_failed_def initial_def defaultValues_def Let_def)

text \<open>The same at a sample input.\<close>

theorem load_failure_notifies_once_witness:
  "error denied_reply = Some \<lparr>code = Some ''42501'', message = ''permission denied''\<rparr>
   \<and> code \<lparr>code = Some ''42501'', message = ''permission denied''\<rparr> \<noteq> Some ''PGRST116''
   \<and> length (filter (is_toast TError) (effects (fetchSettings denied_reply initial))) = 1
   \<and> length (filter is_console_error (effects (fetchSettings denied_reply initial))) = 1
   \<and> form (fetchSettings denied_reply initial) =
       \<lparr>backgroundImageUrl = JNull, backgroundColor = JStr ''#0A0A0A'',
        screensaverIdleMinutes = JNum (Fin 5)\<rparr>"
proof -
  have h1: "error denied_reply = Some \<lparr>code = Some ''42501'', message = ''permission denied''\<rparr>"
    by (simp add: denied_reply_def)
  have h2: "code \<lparr>code = Some ''42501'', message = ''permission denied''\<rparr> \<noteq> Some ''PGRST116''"
    by simp
  show ?thesis
    using load_failure_notifies_once[OF h1 h2, of initial] h1
    by (simp add: initial_def defaultValues_def)
qed

text \<open>
  C7: When the storage upload succeeds and the public URL is missing or falsy, the
  handler logs the error it raises and turns the loading notification, by its
  identifier, into an error notification with that error's message; the form's
  \<open>backgroundImageUrl\<close> and the preview are unchanged.
\<close>

theorem upload_without_public_url_fails:
  assumes "error (upload_reply env) = None"
      and "\<not> truthy (opt_publicUrl (getPublicUrl_reply env))"
  shows "effects (handleImageUpload (Some f) env s) =
           effects s @
           [Toast TLoading ''Mengunggah gambar latar belakang...'' None,
            StorageUpload ''images'' (filePath (uuidv4 env) f) f ''3600'' False,
            GetPublicUrl ''images'' (filePath (uuidv4 env) f),
            ConsoleError ''Error uploading image:''
              \<lparr>code = None, message = ''Gagal mendapatkan URL publik gambar.''\<rparr>,
            Toast TError ''Gagal mengunggah gambar: Gagal mendapatkan URL publik gambar.''
              (Some (toast_loading env))]
         \<and> form (handleImageUpload (Some f) env s) = form s
         \<and> currentImageUrl (handleImageUpload (Some f) env s) = currentImageUrl s"
  using assms
  by (simp add: handleImageUpload_def handleImageUpload_request_def
      handleImageUpload_reply_def Let_def)

text \<open>The same at a sample input.\<close>

theorem upload_without_public_url_fails_witness:
  "error (upload_reply upload_no_url) = None
   \<and> \<not> truthy (opt_publicUrl (getPublicUrl_reply upload_no_url))
   \<and> effects (handleImageUpload (Some photo_png) upload_no_url initial) =
       [Toast TLoading ''Mengunggah gambar latar belakang...'' None,
        StorageUpload ''images'' ''backgrounds/9b1deb4d-3b7d-4bad-9bdd-2b0d7b3dcb6d.png''
          photo_png ''3600'' False,
        GetPublicUrl ''images'' ''backgrounds/9b1deb4d-3b7d-4bad-9bdd-2b0d7b3dcb6d.png'',
        ConsoleError ''Error uploading image:''
          \<lparr>code = None, message = ''Gagal mendapatkan URL publik gambar.''\<rparr>,
        Toast TError ''Gagal mengunggah gambar: Gagal mendapatkan URL publik gambar.'' (Some 1)]
   \<and> backgroundImageUrl (form (handleImageUpload (Some photo_png) upload_no_url initial)) = JNull
   \<and> currentImageUrl (handleImageUpload (Some photo_png) upload_no_url initial) = JNull"
proof -
  have h1: "error (upload_reply upload_no_url) = None"
    by (simp add: upload_no_url_def upload_ok_def)
  have h2: "\<not> truthy (opt_publicUrl (getPublicUrl_reply upload_no_url))"
    by (simp add: upload_no_url_def upload_ok_def opt_publicUrl_def)
  have p: "filePath (uuidv4 upload_no_url) photo_png
             = ''backgrounds/9b1deb4d-3b7d-4bad-9bdd-2b0d7b3dcb6d.png''"
    by (simp add: filePath_def pop_def template_def photo_png_def upload_no_url_def upload_ok_def)
  have t: "toast_loading upload_no_url = 1"
    by (simp add: upload_no_url_def upload_ok_def)
  have i: "effects initial = [] \<and> backgroundImageUrl (form initial) = JNull
           \<and> currentImageUrl initial = JNull"
    by (simp add: initial_def defaultValues_def)
  show ?thesis
    using upload_without_public_url_fails[OF h1 h2, of photo_png initial] h1 h2
    by (simp add: p t i)
qed




text \<open>
  C9: In every state the component can reach, at most one save has been started without
  having reported its outcome; the submit button is disabled exactly while there is one,
  and activating submit then changes nothing, so no second upsert is issued before the
  first has been answered.
\<close>

theorem submit_disabled_while_in_flight:
  "saves_pending (run stn es initial) \<le> 1
   \<and> submit_disabled (run stn es initial) = (0 < saves_pending (run stn es initial))
   \<and> (0 < saves_pending (run stn es initial) \<longrightarrow>
        step stn SubmitForm (run stn es initial) = run stn es initial)"
  using consistent_run[of stn es]
  by (simp add: consistent_def saves_pending_def submit_disabled_def split: if_splits)

text \<open>The same at a sample input.\<close>

theorem submit_disabled_while_in_flight_witness:
  "0 < saves_pending (run sample_stn [SubmitForm] initial)
   \<and> saves_pending (run sample_stn [SubmitForm] initial) \<le> 1
   \<and> submit_disabled (run sample_stn [SubmitForm] initial)
   \<and> step sample_stn SubmitForm (run sample_stn [SubmitForm] initial)
       = run sample_stn [SubmitForm] initial"
proof -
  have v: "formSchema sample_stn (form initial) = Inr defaultValues"
    using formSchema_valid[of defaultValues "''#0A0A0A''" sample_stn 5]
    by (simp add: form_initial defaultValues_def)
  have "\<not> submit_disabled initial"
    by (simp add: submit_disabled_def initial_def)
  then have "effects (run sample_stn [SubmitForm] initial)
               = [Upsert ''app_settings'' (payload defaultValues) ''id'']"
    by (simp add: run_def handleSubmit_begin_valid[OF v] effects_initial)
  then have h: "0 < saves_pending (run sample_stn [SubmitForm] initial)"
    by (simp add: saves_pending_def)
  show ?thesis
    using submit_disabled_while_in_flight[of sample_stn "[SubmitForm]"] h by simp
qed

text \<open>
  C10: When the file's name has no dot, the extension derived from it is the whole name,
  and the upload goes to \<open>backgrounds/<uuid>.<name>\<close>. When no file is
  picked, the handler returns the state as it was: no request, no notification.
\<close>

theorem upload_without_extension:
  "(CHR ''.'' \<notin> set (name f) \<longrightarrow>
      pop (split CHR ''.'' (name f)) = Some (name f)
      \<and> filePath (uuidv4 env) f = ''backgrounds/'' @ uuidv4 env @ ''.'' @ name f
      \<and> StorageUpload ''images'' (''backgrounds/'' @ uuidv4 env @ ''.'' @ name f) f ''3600'' False
          \<in> set (effects (handleImageUpload (Some f) env s)))
   \<and> handleImageUpload None env s = s"
  by (simp add: handleImageUpload_def handleImageUpload_request_def
      handleImageUpload_reply_def filePath_def pop_def template_def split_no_separator
      Let_def split: option.splits)

text \<open>The same at a sample input.\<close>

theorem upload_without_extension_witness:
  "CHR ''.'' \<notin> set (name README)
   \<and> pop (split CHR ''.'' (name README)) = Some ''README''
   \<and> filePath (uuidv4 upload_ok) README
       = ''backgrounds/9b1deb4d-3b7d-4bad-9bdd-2b0d7b3dcb6d.README''
   \<and> handleImageUpload None upload_ok initial = initial"
proof -
  have h: "CHR ''.'' \<notin> set (name README)" by (simp add: README_def)
  have n: "name README = ''README''" by (simp add: README_def)
  have v: "uuidv4 upload_ok = ''9b1deb4d-3b7d-4bad-9bdd-2b0d7b3dcb6d''"
    by (simp add: upload_ok_def)
  show ?thesis
    using upload_without_extension[of README upload_ok initial] h
    by (simp add: n v)
qed

end
